theory Spec2Isabelle
  imports Complex_Main
begin

section \<open>Conventions of the embedding\<close>

text \<open>
  The program is TypeScript, two React components: the analysis page
  (\<^verbatim>\<open>AnalysisPage.tsx\<close>) and the output dashboard. What follows embeds their
  computations; rendering is left out. The conventions of the embedding:
  \<^item> A \<^verbatim>\<open>number\<close> is an exact rational or the special value \<^verbatim>\<open>NaN\<close>, which the
    source tests for. The rounding of binary floating point, overflow, the infinities and
    the sign of zero are not modelled. A number that arrives in a JSON document is finite
    and has type \<^typ>\<open>rat\<close>.
  \<^item> A string is a list of characters; letter case and white space are those of ASCII.
  \<^item> A value of an interface has the fields of the interface. A field that the source
    reads behind a guard (\<^verbatim>\<open>||\<close>, \<^verbatim>\<open>!\<close>, \<^verbatim>\<open>=== false\<close>) may be absent and is an option.
  \<^item> An object that serves as a dictionary is a map, or an association list in the order
    of insertion, over the keys the program has stored; the members that every object
    inherits, and the enumeration order of keys that look like array indices, are not
    modelled.
  \<^item> An exception is a value: a function that can throw returns a sum.
\<close>

section \<open>Numbers and strings of the host language\<close>

datatype jsnum = NaN | Fin rat

definition isNaN :: "jsnum \<Rightarrow> bool" where
  "isNaN x = (case x of NaN \<Rightarrow> True | Fin _ \<Rightarrow> False)"

text \<open>\<^verbatim>\<open>x || d\<close> for a numeric field that may be absent: \<^verbatim>\<open>undefined\<close> and \<^verbatim>\<open>0\<close> are falsy.\<close>

definition num_or :: "rat option \<Rightarrow> rat \<Rightarrow> jsnum" where
  "num_or x d = (case x of None \<Rightarrow> Fin d | Some v \<Rightarrow> if v = 0 then Fin d else Fin v)"

text \<open>A numeric field read in an arithmetic expression: \<^verbatim>\<open>undefined\<close> converts to \<^verbatim>\<open>NaN\<close>.\<close>

definition to_number :: "rat option \<Rightarrow> jsnum" where
  "to_number x = (case x of None \<Rightarrow> NaN | Some v \<Rightarrow> Fin v)"

text \<open>
  Division. A non-zero number divided by zero is an infinity in the host language; the
  model has no infinities and leaves that case unspecified. Every division of the source
  has a divisor that has passed a zero test (\<^verbatim>\<open>|| 1\<close>, \<^verbatim>\<open>> 0\<close>).
\<close>

definition js_div :: "jsnum \<Rightarrow> jsnum \<Rightarrow> jsnum" where
  "js_div a b =
     (case a of NaN \<Rightarrow> NaN
      | Fin x \<Rightarrow> (case b of NaN \<Rightarrow> NaN
          | Fin y \<Rightarrow> if y = 0 then (if x = 0 then NaN else undefined) else Fin (x / y)))"

definition js_mul :: "jsnum \<Rightarrow> jsnum \<Rightarrow> jsnum" where
  "js_mul a b =
     (case a of NaN \<Rightarrow> NaN
      | Fin x \<Rightarrow> (case b of NaN \<Rightarrow> NaN | Fin y \<Rightarrow> Fin (x * y)))"

text \<open>Strict equality \<^verbatim>\<open>===\<close> on numbers: \<^verbatim>\<open>NaN\<close> equals nothing.\<close>

definition js_strict_eq :: "jsnum \<Rightarrow> jsnum \<Rightarrow> bool" where
  "js_strict_eq a b = (case a of NaN \<Rightarrow> False | Fin x \<Rightarrow> (case b of NaN \<Rightarrow> False | Fin y \<Rightarrow> x = y))"

text \<open>\<^verbatim>\<open>x || d\<close> for a string that may be absent: \<^verbatim>\<open>undefined\<close> and the empty string are falsy.\<close>

definition str_or :: "string option \<Rightarrow> string \<Rightarrow> string" where
  "str_or x d = (case x of None \<Rightarrow> d | Some s \<Rightarrow> if s = [] then d else s)"

subsection \<open>Printing numbers\<close>

definition digit_char :: "nat \<Rightarrow> char" where
  "digit_char n = ''0123456789'' ! (n mod 10)"

function show_nat :: "nat \<Rightarrow> string" where
  "show_nat n = (if n < 10 then [digit_char n] else show_nat (n div 10) @ [digit_char n])"
  by pat_completeness auto
termination
  by (relation "measure (\<lambda>n. n)") auto

declare show_nat.simps [simp del]

text \<open>An integer inside a template literal; plain decimal digits.\<close>

definition show_int :: "int \<Rightarrow> string" where
  "show_int i = (if i < 0 then CHR ''-'' # show_nat (nat (- i)) else show_nat (nat i))"

text \<open>
  \<^verbatim>\<open>Number.prototype.toFixed(f)\<close>: the sign is split off, the magnitude is scaled by
  \<open>10 ^ f\<close> and rounded to the nearest integer, the larger one on a tie; the digits are
  padded with zeros to at least \<open>f + 1\<close> places and the point is put before the last
  \<open>f\<close> of them. \<^verbatim>\<open>NaN\<close> prints as its name.
\<close>

definition toFixed :: "nat \<Rightarrow> jsnum \<Rightarrow> string" where
  "toFixed f x =
     (case x of NaN \<Rightarrow> ''NaN''
      | Fin q \<Rightarrow>
          (let s = (if q < 0 then ''-'' else '''');
               n = nat \<lfloor>\<bar>q\<bar> * 10 ^ f + 1 / 2\<rfloor>;
               m = show_nat n;
               m' = (if length m \<le> f then replicate (f + 1 - length m) CHR ''0'' @ m else m);
               k = length m'
           in if f = 0 then s @ m
              else s @ take (k - f) m' @ ''.'' @ drop (k - f) m'))"

section \<open>Analysis page: types\<close>

record DropBreakupItem =
  reason_code :: string
  reason_label :: "string option"
  dropped_count :: rat
  pct_of_dropped :: rat
  pct_of_planned :: rat

text \<open>
  The fields of the remote payload that the source reads behind a guard (\<^verbatim>\<open>||\<close>,
  \<^verbatim>\<open>!\<close>, \<^verbatim>\<open>=== false\<close>) may be absent, and are options. \<^verbatim>\<open>trip_matrix\<close> is never read.
\<close>

record Summary =
  total_trips :: "rat option"
  total_distance_km :: "rat option"
  avg_trip_distance_km :: "rat option"
  total_trip_hours :: "rat option"
  avg_trip_hours :: "rat option"
  total_consignments_planned :: "rat option"
  total_consignments_served :: "rat option"
  total_consignments_dropped :: "rat option"
  avg_stops_per_trip :: "rat option"

record WebhookResponseItem =
  success :: "bool option"
  request_id :: "string option"
  hub_code :: "string option"
  summary :: "Summary option"
  drop_breakup :: "DropBreakupItem list option"

record DropReason =
  reason :: string
  count :: rat

record DetailedMetrics =
  id_d :: string
  hub :: string
  totalTrips :: jsnum
  avgDistance :: jsnum
  avgDistanceStr :: string
  totalStops :: jsnum
  avgConsignments :: jsnum
  avgConsignmentsStr :: string
  avgTripTimeStr :: string
  totalDrops :: jsnum
  dropSplit :: jsnum
  dropSplitStr :: string
  dropReasons :: "DropReason list"
  isMock :: bool

datatype AnalysisMode = SINGLE | COMPARE

definition MOCK_RESPONSE_DATA :: WebhookResponseItem where
  "MOCK_RESPONSE_DATA =
     \<lparr> success = Some True,
       request_id = Some ''IDBtest3'',
       hub_code = Some ''PALAK'',
       summary = Some
         \<lparr> total_trips = Some 1,
           total_distance_km = Some (6 / 100),
           avg_trip_distance_km = Some (6 / 100),
           total_trip_hours = Some (211 / 100),
           avg_trip_hours = Some (211 / 100),
           total_consignments_planned = Some 13,
           total_consignments_served = Some 10,
           total_consignments_dropped = Some 3,
           avg_stops_per_trip = Some 10 \<rparr>,
       drop_breakup = Some
         [ \<lparr> reason_code = ''WEIGHT_CONSTRAINT_BREACH'',
             reason_label = Some ''Insufficient weight'',
             dropped_count = 3,
             pct_of_dropped = 100,
             pct_of_planned = 2308 / 100 \<rparr> ] \<rparr>"

section \<open>Analysis page: duration formatting\<close>

definition formatHoursToHHMM :: "jsnum \<Rightarrow> string" where
  "formatHoursToHHMM decimalHours =
     (case decimalHours of
        NaN \<Rightarrow> ''0h 0m''
      | Fin v \<Rightarrow>
          (let hrs = \<lfloor>v\<rfloor>;
               mins = round ((v - of_int hrs) * 60)
           in show_int hrs @ ''h '' @ show_int mins @ ''m''))"

section \<open>Analysis page: resolving one scenario\<close>

text \<open>
  What the remote service did for one request. \<open>NetworkError\<close>: \<^verbatim>\<open>fetch\<close> rejected.
  \<open>HttpResponse ok body\<close>: a response arrived, \<open>ok\<close> is \<^verbatim>\<open>response.ok\<close>. A body that
  is not JSON makes \<^verbatim>\<open>response.json()\<close> reject; otherwise it is one payload or an array
  of payloads.
\<close>

datatype ResponseBody =
    NotJson
  | JsonObject WebhookResponseItem
  | JsonArray "WebhookResponseItem list"

datatype Remote = NetworkError | HttpResponse bool ResponseBody

text \<open>
  The \<^verbatim>\<open>try\<close>/\<^verbatim>\<open>catch\<close> block: the payload to use (absent for an empty array) and
  whether it is the simulated one.
\<close>

definition mock_for :: "string \<Rightarrow> WebhookResponseItem option \<times> bool" where
  "mock_for scenarioName = (Some (MOCK_RESPONSE_DATA\<lparr>request_id := Some scenarioName\<rparr>), True)"

definition fetch_item :: "string \<Rightarrow> Remote \<Rightarrow> WebhookResponseItem option \<times> bool" where
  "fetch_item scenarioName remote =
     (case remote of
        NetworkError \<Rightarrow> mock_for scenarioName
      | HttpResponse ok body \<Rightarrow>
          if \<not> ok then mock_for scenarioName
          else (case body of
                  NotJson \<Rightarrow> mock_for scenarioName
                | JsonArray jsonResponse \<Rightarrow>
                    (case jsonResponse of [] \<Rightarrow> (None, False) | x # _ \<Rightarrow> (Some x, False))
                | JsonObject jsonResponse \<Rightarrow> (Some jsonResponse, False)))"

text \<open>The rest of the function, from \<^verbatim>\<open>if (!item) return null\<close> on.\<close>

definition to_metrics :: "string \<Rightarrow> WebhookResponseItem option \<Rightarrow> bool \<Rightarrow> DetailedMetrics option" where
  "to_metrics scenarioName item_opt isMock' =
     (case item_opt of
        None \<Rightarrow> None
      | Some item \<Rightarrow>
          if success item = Some False \<and> \<not> isMock' then None
          else (case summary item of
             None \<Rightarrow> None
           | Some summ \<Rightarrow>
               (let totalPlanned = num_or (total_consignments_planned summ) 1;
                    dropSplit' =
                      js_mul (js_div (to_number (total_consignments_dropped summ)) totalPlanned) (Fin 100)
                in Some
                  \<lparr> id_d = str_or (request_id item) scenarioName,
                    hub = str_or (hub_code item) ''N/A'',
                    totalTrips = num_or (total_trips summ) 0,
                    avgDistance = num_or (avg_trip_distance_km summ) 0,
                    avgDistanceStr = toFixed 2 (num_or (avg_trip_distance_km summ) 0),
                    totalStops = num_or (total_consignments_served summ) 0,
                    avgConsignments = num_or (avg_stops_per_trip summ) 0,
                    avgConsignmentsStr = toFixed 1 (num_or (avg_stops_per_trip summ) 0),
                    avgTripTimeStr = formatHoursToHHMM (num_or (avg_trip_hours summ) 0),
                    totalDrops = num_or (total_consignments_dropped summ) 0,
                    dropSplit = dropSplit',
                    dropSplitStr = toFixed 1 dropSplit',
                    dropReasons =
                      sort_key (\<lambda>r. - count r)
                        (map (\<lambda>d. \<lparr> reason = str_or (reason_label d) (reason_code d),
                                    count = dropped_count d \<rparr>)
                           (case drop_breakup item of None \<Rightarrow> [] | Some ds \<Rightarrow> ds)),
                    isMock = isMock' \<rparr>)))"

definition fetchScenarioData :: "string \<Rightarrow> Remote \<Rightarrow> DetailedMetrics option" where
  "fetchScenarioData scenarioName remote =
     (case fetch_item scenarioName remote of (item, isMock') \<Rightarrow> to_metrics scenarioName item isMock')"

section \<open>Analysis page: resolving a batch\<close>

text \<open>The part of the component state that \<^verbatim>\<open>executeSearch\<close> reads or writes.\<close>

record PageState =
  searchInput :: string
  isLoading :: bool
  metricsData :: "DetailedMetrics list"
  error :: "string option"
  hasSearched :: bool

definition initial_state :: "string \<Rightarrow> PageState" where
  "initial_state initialScenario =
     \<lparr> searchInput = initialScenario, isLoading = False, metricsData = [],
       error = None, hasSearched = False \<rparr>"

definition unresolvable_message :: string where
  "unresolvable_message = ''Could not retrieve data. Please check Scenario Name.''"

text \<open>
  A batch is the list of requested names, each paired with what the network did for its
  call. \<^verbatim>\<open>Promise.all\<close> keeps the order of the requests; \<^verbatim>\<open>filter(Boolean)\<close> drops the
  \<^verbatim>\<open>null\<close>s.
\<close>

definition validResults :: "(string \<times> Remote) list \<Rightarrow> DetailedMetrics list" where
  "validResults scenarios =
     List.map_filter (\<lambda>r. r) (map (\<lambda>(name, remote). fetchScenarioData name remote) scenarios)"

definition executeSearch :: "AnalysisMode \<Rightarrow> (string \<times> Remote) list \<Rightarrow> PageState \<Rightarrow> PageState" where
  "executeSearch mode scenarios st =
     (if length scenarios = 0 then st
      else
        (let st1 = st\<lparr> isLoading := True, error := None, metricsData := [], hasSearched := True \<rparr>
         in if length (validResults scenarios) = 0
            then st1\<lparr> error := Some unresolvable_message, isLoading := False \<rparr>
            else st1\<lparr> metricsData := validResults scenarios,
                      searchInput := (if mode = COMPARE then [] else searchInput st1),
                      isLoading := False \<rparr>))"

section \<open>Analysis page: comparison\<close>

record BestMetrics =
  minDistance :: jsnum
  minDrops :: jsnum
  minTrips :: jsnum
  maxConsignments :: jsnum

definition js_min2 :: "jsnum \<Rightarrow> jsnum \<Rightarrow> jsnum" where
  "js_min2 a b =
     (case a of NaN \<Rightarrow> NaN | Fin x \<Rightarrow> (case b of NaN \<Rightarrow> NaN | Fin y \<Rightarrow> Fin (min x y)))"

definition js_max2 :: "jsnum \<Rightarrow> jsnum \<Rightarrow> jsnum" where
  "js_max2 a b =
     (case a of NaN \<Rightarrow> NaN | Fin x \<Rightarrow> (case b of NaN \<Rightarrow> NaN | Fin y \<Rightarrow> Fin (max x y)))"

text \<open>
  \<^verbatim>\<open>Math.min(...xs)\<close> and \<^verbatim>\<open>Math.max(...xs)\<close>: \<^verbatim>\<open>NaN\<close> as soon as one argument is.
  With no argument they are infinities, which the model does not have: that case is left
  unspecified, and \<^verbatim>\<open>bestMetrics\<close> calls them with two arguments or more.
\<close>

fun Math_min :: "jsnum list \<Rightarrow> jsnum" where
  "Math_min (x # xs) = fold (\<lambda>y acc. js_min2 acc y) xs x"

fun Math_max :: "jsnum list \<Rightarrow> jsnum" where
  "Math_max (x # xs) = fold (\<lambda>y acc. js_max2 acc y) xs x"

definition bestMetrics :: "AnalysisMode \<Rightarrow> DetailedMetrics list \<Rightarrow> BestMetrics option" where
  "bestMetrics mode metricsData' =
     (if length metricsData' < 2 \<or> mode \<noteq> COMPARE then None
      else Some
        \<lparr> minDistance = Math_min (map avgDistance metricsData'),
          minDrops = Math_min (map totalDrops metricsData'),
          minTrips = Math_min (map totalTrips metricsData'),
          maxConsignments = Math_max (map avgConsignments metricsData') \<rparr>)"

text \<open>The four badges of the comparison table: \<^verbatim>\<open>bestMetrics && s.x === bestMetrics.y\<close>.\<close>

definition badge :: "BestMetrics option \<Rightarrow> (BestMetrics \<Rightarrow> jsnum) \<Rightarrow> jsnum \<Rightarrow> bool" where
  "badge best field v = (case best of None \<Rightarrow> False | Some b \<Rightarrow> js_strict_eq v (field b))"

definition tripsBadge :: "BestMetrics option \<Rightarrow> DetailedMetrics \<Rightarrow> bool" where
  "tripsBadge best s = badge best minTrips (totalTrips s)"

definition distanceBadge :: "BestMetrics option \<Rightarrow> DetailedMetrics \<Rightarrow> bool" where
  "distanceBadge best s = badge best minDistance (avgDistance s)"

definition consignmentsBadge :: "BestMetrics option \<Rightarrow> DetailedMetrics \<Rightarrow> bool" where
  "consignmentsBadge best s = badge best maxConsignments (avgConsignments s)"

definition dropsBadge :: "BestMetrics option \<Rightarrow> DetailedMetrics \<Rightarrow> bool" where
  "dropsBadge best s = badge best minDrops (totalDrops s)"

section \<open>Output dashboard: reading the sheet\<close>












section \<open>Output dashboard: metrics per scenario\<close>























section \<open>Vocabulary of the statements about the analysis page\<close>

text \<open>
  The three ways a remote call fails: no response, a response whose status is not a
  success, a successful response whose body is not JSON.
\<close>

definition remote_failed :: "Remote \<Rightarrow> bool" where
  "remote_failed remote =
     (case remote of NetworkError \<Rightarrow> True
      | HttpResponse ok body \<Rightarrow> (if ok then (case body of NotJson \<Rightarrow> True | _ \<Rightarrow> False) else True))"

text \<open>The drop reasons of the fixed fallback payload, projected to label and count.\<close>

definition mock_drop_reasons :: "DropReason list" where
  "mock_drop_reasons = [\<lparr> reason = ''Insufficient weight'', count = 3 \<rparr>]"

text \<open>The closed interval from 0 to 100; \<^verbatim>\<open>NaN\<close> is outside.\<close>

definition in_percent_range :: "jsnum \<Rightarrow> bool" where
  "in_percent_range x = (case x of NaN \<Rightarrow> False | Fin q \<Rightarrow> 0 \<le> q \<and> q \<le> 100)"

text \<open>A well-typed remote payload with the given planned and dropped counts.\<close>

definition payload_with_counts :: "rat \<Rightarrow> rat \<Rightarrow> WebhookResponseItem" where
  "payload_with_counts planned dropped =
     \<lparr> success = Some True, request_id = Some ''S1'', hub_code = Some ''HUB'',
       summary = Some
         \<lparr> total_trips = Some 1, total_distance_km = Some 4, avg_trip_distance_km = Some 4,
           total_trip_hours = Some 1, avg_trip_hours = Some 1,
           total_consignments_planned = Some planned,
           total_consignments_served = Some 0,
           total_consignments_dropped = Some dropped,
           avg_stops_per_trip = Some 0 \<rparr>,
       drop_breakup = Some [] \<rparr>"

text \<open>
  The four values that the comparison reads are numbers. Every result of
  \<^verbatim>\<open>fetchScenarioData\<close> is of this kind, because each of the four passes \<^verbatim>\<open>|| 0\<close>.
\<close>

definition comparable :: "DetailedMetrics \<Rightarrow> bool" where
  "comparable d = (\<not> isNaN (avgDistance d) \<and> \<not> isNaN (totalDrops d)
                   \<and> \<not> isNaN (totalTrips d) \<and> \<not> isNaN (avgConsignments d))"

text \<open>Order on numbers, and what it is to be a least or a greatest element of a list.\<close>

definition num_le :: "jsnum \<Rightarrow> jsnum \<Rightarrow> bool" where
  "num_le a b = (case a of NaN \<Rightarrow> False | Fin x \<Rightarrow> (case b of NaN \<Rightarrow> False | Fin y \<Rightarrow> x \<le> y))"

definition is_least :: "jsnum \<Rightarrow> jsnum list \<Rightarrow> bool" where
  "is_least v xs = (v \<in> set xs \<and> (\<forall>x\<in>set xs. num_le v x))"

definition is_greatest :: "jsnum \<Rightarrow> jsnum list \<Rightarrow> bool" where
  "is_greatest v xs = (v \<in> set xs \<and> (\<forall>x\<in>set xs. num_le x v))"

text \<open>A well-typed remote payload with the given average trip distance and no id of its own.\<close>

definition payload_with_distance :: "rat \<Rightarrow> WebhookResponseItem" where
  "payload_with_distance km =
     \<lparr> success = Some True, request_id = None, hub_code = Some ''HUB'',
       summary = Some
         \<lparr> total_trips = Some 2, total_distance_km = Some (2 * km), avg_trip_distance_km = Some km,
           total_trip_hours = Some 3, avg_trip_hours = Some (3 / 2),
           total_consignments_planned = Some 8,
           total_consignments_served = Some 8,
           total_consignments_dropped = Some 0,
           avg_stops_per_trip = Some 4 \<rparr>,
       drop_breakup = None \<rparr>"

text \<open>Three resolved scenarios whose average distances are 5.0, 3.2 and 3.2.\<close>

definition compare_example :: "DetailedMetrics list" where
  "compare_example = validResults
     [ (''A'', HttpResponse True (JsonObject (payload_with_distance 5))),
       (''B'', HttpResponse True (JsonObject (payload_with_distance (16 / 5)))),
       (''C'', HttpResponse True (JsonArray [payload_with_distance (16 / 5)])) ]"

text \<open>A batch of two names whose remote calls both fail.\<close>

definition failing_batch :: "(string \<times> Remote) list" where
  "failing_batch = [(''A'', NetworkError), (''B'', HttpResponse False NotJson)]"

section \<open>Vocabulary of the statements about the output dashboard\<close>



















section \<open>Properties of the analysis page\<close>

subsection \<open>Resolving one scenario\<close>

lemma fetch_item_failed:
  "remote_failed remote \<Longrightarrow> fetch_item X remote = mock_for X"
  by (auto simp: remote_failed_def fetch_item_def split: Remote.splits ResponseBody.splits if_splits)

lemma str_or_same: "str_or (Some X) X = X"
  by (simp add: str_or_def)

lemma fetch_item_network_error:
  "fetch_item X NetworkError = (Some (MOCK_RESPONSE_DATA\<lparr>request_id := Some X\<rparr>), True)"
  by (simp add: fetch_item_def mock_for_def)

lemma fetchScenarioData_network_error:
  "fetchScenarioData X NetworkError = Some (the (fetchScenarioData X NetworkError))"
  by (simp add: fetchScenarioData_def fetch_item_network_error to_metrics_def
      MOCK_RESPONSE_DATA_def Let_def)

lemma summary_mock:
  "summary (MOCK_RESPONSE_DATA\<lparr>request_id := Some X\<rparr>) = Some (the (summary MOCK_RESPONSE_DATA))"
  by (simp add: MOCK_RESPONSE_DATA_def)

text \<open>
  Claim C1. When the remote call for scenario \<open>X\<close> fails in transport, comes back with a
  non-success status, or has a body that is not JSON, the result exists, carries the id
  \<open>X\<close>, is marked as simulated, and its drop reasons are those of the fixed fallback
  payload.
\<close>

theorem fallback_on_failure:
  assumes "remote_failed remote"
  shows "\<exists>m. fetchScenarioData X remote = Some m \<and> id_d m = X \<and> isMock m
           \<and> dropReasons m = mock_drop_reasons"
  using assms
  by (simp add: fetchScenarioData_def fetch_item_failed mock_for_def to_metrics_def
      MOCK_RESPONSE_DATA_def Let_def str_or_same mock_drop_reasons_def str_or_def)

theorem fallback_on_failure_witness:
  "remote_failed (HttpResponse False NotJson) \<and>
   map_option id_d (fetchScenarioData ''X'' (HttpResponse False NotJson)) = Some ''X'' \<and>
   map_option isMock (fetchScenarioData ''X'' (HttpResponse False NotJson)) = Some True \<and>
   map_option dropReasons (fetchScenarioData ''X'' (HttpResponse False NotJson))
     = Some mock_drop_reasons"
proof -
  have h: "remote_failed (HttpResponse False NotJson)"
    by (simp add: remote_failed_def)
  from fallback_on_failure [OF h, of "''X''"] h show ?thesis
    by auto
qed

text \<open>
  Claim C5. When the remote call succeeded, so that the payload in use is the remote one
  and not the fallback, and that payload carries \<^verbatim>\<open>success: false\<close>, the scenario has no
  result: it is left out, the fallback is not substituted.
\<close>

theorem explicit_failure_excluded:
  assumes "fetch_item name remote = (Some item, False)" and "success item = Some False"
  shows "fetchScenarioData name remote = None"
  using assms by (simp add: fetchScenarioData_def to_metrics_def)

theorem explicit_failure_excluded_witness:
  "fetch_item ''S1'' (HttpResponse True (JsonArray [(payload_with_counts 13 3)\<lparr>success := Some False\<rparr>]))
     = (Some ((payload_with_counts 13 3)\<lparr>success := Some False\<rparr>), False)
   \<and> success ((payload_with_counts 13 3)\<lparr>success := Some False\<rparr>) = Some False
   \<and> fetchScenarioData ''S1''
        (HttpResponse True (JsonArray [(payload_with_counts 13 3)\<lparr>success := Some False\<rparr>])) = None"
proof -
  have a: "fetch_item ''S1'' (HttpResponse True (JsonArray [(payload_with_counts 13 3)\<lparr>success := Some False\<rparr>]))
     = (Some ((payload_with_counts 13 3)\<lparr>success := Some False\<rparr>), False)"
    by (simp add: fetch_item_def)
  have b: "success ((payload_with_counts 13 3)\<lparr>success := Some False\<rparr>) = Some False"
    by simp
  from explicit_failure_excluded [OF a b] a b show ?thesis
    by simp
qed

text \<open>
  Claim C10. A successful response whose body is the empty JSON array gives no result
  for the scenario; the simulated fallback is not substituted.
\<close>

theorem empty_array_excluded:
  "fetchScenarioData name (HttpResponse True (JsonArray [])) = None"
  by (simp add: fetchScenarioData_def fetch_item_def to_metrics_def)

theorem empty_array_excluded_witness:
  "fetchScenarioData ''IDBtest3'' (HttpResponse True (JsonArray [])) = None"
  by (rule empty_array_excluded)

subsection \<open>Printing with a fixed number of decimals\<close>

lemma show_nat_nonempty: "show_nat n \<noteq> []"
  by (subst show_nat.simps) simp

text \<open>With \<open>f > 0\<close> the output has a sign, at least one digit, a point and \<open>f\<close> digits.\<close>

lemma toFixed_decimals:
  assumes "0 < f"
  shows "\<exists>ip fp. toFixed f (Fin q) = (if q < 0 then ''-'' else []) @ ip @ ''.'' @ fp
           \<and> ip \<noteq> [] \<and> length fp = f"
proof -
  define m where "m = show_nat (nat \<lfloor>\<bar>q\<bar> * 10 ^ f + 1 / 2\<rfloor>)"
  define m' where "m' = (if length m \<le> f then replicate (f + 1 - length m) CHR ''0'' @ m else m)"
  have len: "f < length m'"
    by (auto simp: m'_def)
  have eq: "toFixed f (Fin q) =
      (if q < 0 then ''-'' else []) @ take (length m' - f) m' @ ''.'' @ drop (length m' - f) m'"
    using assms by (simp add: toFixed_def Let_def m_def m'_def)
  from len have "take (length m' - f) m' \<noteq> []" "length (drop (length m' - f) m') = f"
    by auto
  with eq show ?thesis by blast
qed

subsection \<open>Duration formatting\<close>


subsection \<open>Drop split\<close>

lemma fetchScenarioData_dropSplit:
  assumes "fetch_item name remote = (Some item, mock)"
    and "fetchScenarioData name remote = Some m"
    and "summary item = Some s"
  shows "dropSplit m =
           js_mul (js_div (to_number (total_consignments_dropped s))
                     (num_or (total_consignments_planned s) 1)) (Fin 100)"
    and "dropSplitStr m = toFixed 1 (dropSplit m)"
  using assms
  by (auto simp: fetchScenarioData_def to_metrics_def Let_def split: if_splits)

text \<open>
  Claim C2, as stated: the drop split of every accepted payload lies in \<open>[0, 100]\<close>.
  It fails for a payload that reports more dropped than planned consignments: 5 dropped
  of 2 planned is accepted and gives 250.
\<close>

theorem drop_split_range_counterexample:
  "map_option dropSplit
     (fetchScenarioData ''S1'' (HttpResponse True (JsonObject (payload_with_counts 2 5))))
     = Some (Fin 250)
   \<and> \<not> in_percent_range (Fin 250)"
  by (simp add: fetchScenarioData_def fetch_item_def to_metrics_def payload_with_counts_def
      Let_def num_or_def to_number_def js_div_def js_mul_def in_percent_range_def)

text \<open>
  Claim C2, amended: for every accepted payload, remote or fallback, whose dropped count
  \<open>d\<close> and planned count \<open>p\<close> satisfy \<open>0 \<le> d \<le> p\<close>, the full-precision drop split
  lies in \<open>[0, 100]\<close>.
\<close>

theorem drop_split_range:
  assumes "fetch_item name remote = (Some item, mock)"
    and "fetchScenarioData name remote = Some m"
    and "summary item = Some s"
    and "total_consignments_planned s = Some p"
    and "total_consignments_dropped s = Some d"
    and "0 \<le> d" and "d \<le> p"
  shows "in_percent_range (dropSplit m)"
proof (cases "p = 0")
  case True
  with assms have "d = 0" by simp
  with True assms fetchScenarioData_dropSplit(1) [OF assms(1-3)] show ?thesis
    by (simp add: num_or_def to_number_def js_div_def js_mul_def in_percent_range_def)
next
  case False
  with assms have "0 < p" by simp
  then have "0 \<le> d / p * 100 \<and> d / p * 100 \<le> 100"
    using assms(6,7) by (simp add: field_simps)
  with False assms fetchScenarioData_dropSplit(1) [OF assms(1-3)] show ?thesis
    by (simp add: num_or_def to_number_def js_div_def js_mul_def in_percent_range_def)
qed

theorem drop_split_range_witness:
  "in_percent_range (dropSplit (the (fetchScenarioData ''X'' NetworkError)))"
  by (rule drop_split_range [OF fetch_item_network_error fetchScenarioData_network_error
        summary_mock, of 13 3])
    (simp_all add: MOCK_RESPONSE_DATA_def)



subsection \<open>Resolving a batch\<close>

lemma validResults_Nil [simp]: "validResults [] = []"
  by (simp add: validResults_def map_filter_simps)

lemma validResults_Cons:
  "validResults ((name, remote) # cs) =
     (case fetchScenarioData name remote of None \<Rightarrow> validResults cs
      | Some m \<Rightarrow> m # validResults cs)"
  by (simp add: validResults_def map_filter_simps split: option.splits)

lemma validResults_empty_iff:
  "validResults cs = [] \<longleftrightarrow> (\<forall>c\<in>set cs. fetchScenarioData (fst c) (snd c) = None)"
  by (induction cs) (auto simp: validResults_Cons split: option.splits)

lemma validResults_all_failed:
  "\<forall>c\<in>set cs. remote_failed (snd c) \<Longrightarrow>
     length (validResults cs) = length cs \<and> map id_d (validResults cs) = map fst cs
     \<and> (\<forall>m\<in>set (validResults cs). isMock m)"
proof (induction cs)
  case Nil
  then show ?case by simp
next
  case (Cons c cs)
  obtain name remote where c: "c = (name, remote)" by (cases c)
  with Cons.prems have "remote_failed remote" by simp
  then obtain m where "fetchScenarioData name remote = Some m" "id_d m = name" "isMock m"
    by (auto simp: fetchScenarioData_def fetch_item_failed mock_for_def to_metrics_def MOCK_RESPONSE_DATA_def Let_def str_or_same)
  with Cons c show ?case by (simp add: validResults_Cons)
qed

text \<open>
  Claim C4, as stated: a batch fails with the unresolvable-scenario error if and only if
  no scenario produced a result. It fails for the empty batch: nothing is produced, and
  \<^verbatim>\<open>executeSearch\<close> returns at once without setting an error.
\<close>

theorem batch_resolution_counterexample:
  "validResults [] = []
   \<and> executeSearch COMPARE [] (initial_state []) = initial_state []
   \<and> error (executeSearch COMPARE [] (initial_state [])) = None
   \<and> \<not> (error (executeSearch COMPARE [] (initial_state [])) = Some unresolvable_message
          \<longleftrightarrow> validResults [] = [])"
  by (simp add: executeSearch_def initial_state_def)

text \<open>
  Claim C4, amended: for every non-empty batch, the batch fails with the
  unresolvable-scenario error if and only if no scenario produced a result; when at
  least one scenario is resolved there is no error and the results are the resolved
  scenarios, in the order of the requests; and when every remote call fails, there is no
  error and the results are one simulated entry per requested name.
\<close>

theorem batch_resolution:
  assumes "scenarios \<noteq> []"
  shows "(error (executeSearch mode scenarios st) = Some unresolvable_message
            \<longleftrightarrow> (\<forall>c\<in>set scenarios. fetchScenarioData (fst c) (snd c) = None))
       \<and> ((\<exists>c\<in>set scenarios. fetchScenarioData (fst c) (snd c) \<noteq> None)
            \<longrightarrow> error (executeSearch mode scenarios st) = None
              \<and> metricsData (executeSearch mode scenarios st) = validResults scenarios
              \<and> validResults scenarios \<noteq> [])
       \<and> ((\<forall>c\<in>set scenarios. remote_failed (snd c))
            \<longrightarrow> error (executeSearch mode scenarios st) = None
              \<and> length (metricsData (executeSearch mode scenarios st)) = length scenarios
              \<and> map id_d (metricsData (executeSearch mode scenarios st)) = map fst scenarios
              \<and> (\<forall>m\<in>set (metricsData (executeSearch mode scenarios st)). isMock m))"
proof (intro conjI impI)
  show "error (executeSearch mode scenarios st) = Some unresolvable_message
            \<longleftrightarrow> (\<forall>c\<in>set scenarios. fetchScenarioData (fst c) (snd c) = None)"
    using assms by (simp add: executeSearch_def Let_def validResults_empty_iff)
next
  assume "\<exists>c\<in>set scenarios. fetchScenarioData (fst c) (snd c) \<noteq> None"
  then have ne: "validResults scenarios \<noteq> []"
    by (simp add: validResults_empty_iff)
  with assms show "error (executeSearch mode scenarios st) = None"
    and "metricsData (executeSearch mode scenarios st) = validResults scenarios"
    and "validResults scenarios \<noteq> []"
    by (simp_all add: executeSearch_def Let_def)
next
  assume f: "\<forall>c\<in>set scenarios. remote_failed (snd c)"
  note v = validResults_all_failed [OF f]
  from v assms have ne: "validResults scenarios \<noteq> []" by auto
  with assms have m: "metricsData (executeSearch mode scenarios st) = validResults scenarios"
    and e: "error (executeSearch mode scenarios st) = None"
    by (simp_all add: executeSearch_def Let_def)
  show "error (executeSearch mode scenarios st) = None" by (rule e)
  show "length (metricsData (executeSearch mode scenarios st)) = length scenarios"
    using v m by simp
  show "map id_d (metricsData (executeSearch mode scenarios st)) = map fst scenarios"
    using v m by simp
  show "\<forall>m\<in>set (metricsData (executeSearch mode scenarios st)). isMock m"
    using v m by simp
qed

theorem batch_resolution_witness:
  "failing_batch \<noteq> []
   \<and> error (executeSearch SINGLE failing_batch (initial_state ''A'')) = None
   \<and> map id_d (metricsData (executeSearch SINGLE failing_batch (initial_state ''A''))) = [''A'', ''B'']
   \<and> map isMock (metricsData (executeSearch SINGLE failing_batch (initial_state ''A''))) = [True, True]"
proof -
  have ne: "failing_batch \<noteq> []"
    by (simp add: failing_batch_def)
  have f: "\<forall>c\<in>set failing_batch. remote_failed (snd c)"
    by (simp add: failing_batch_def remote_failed_def)
  note t = batch_resolution [OF ne, of SINGLE "initial_state ''A''", THEN conjunct2, THEN conjunct2,
      THEN mp, OF f]
  from t have len: "length (metricsData (executeSearch SINGLE failing_batch (initial_state ''A''))) = 2"
    and all: "\<forall>m\<in>set (metricsData (executeSearch SINGLE failing_batch (initial_state ''A''))). isMock m"
    by (simp_all add: failing_batch_def)
  from len all
  have "map isMock (metricsData (executeSearch SINGLE failing_batch (initial_state ''A''))) = [True, True]"
    by (cases "metricsData (executeSearch SINGLE failing_batch (initial_state ''A''))" rule: list.exhaust)
       (auto simp: length_Suc_conv)
  with t ne show ?thesis
    by (simp add: failing_batch_def)
qed

subsection \<open>Comparison\<close>

lemma fold_js_min2_least:
  "\<not> isNaN a \<Longrightarrow> \<forall>x\<in>set xs. \<not> isNaN x \<Longrightarrow>
     is_least (fold (\<lambda>y acc. js_min2 acc y) xs a) (a # xs)"
proof (induction xs arbitrary: a)
  case Nil
  then show ?case by (cases a) (simp_all add: is_least_def num_le_def isNaN_def)
next
  case (Cons x xs)
  from Cons.prems obtain p q where a: "a = Fin p" and x: "x = Fin q"
    by (cases a; cases x) (simp_all add: isNaN_def)
  have m: "js_min2 (Fin p) (Fin q) = Fin (min p q)" by (simp add: js_min2_def)
  have "is_least (fold (\<lambda>y acc. js_min2 acc y) xs (Fin (min p q))) (Fin (min p q) # xs)"
    using Cons.prems by (intro Cons.IH) (simp_all add: isNaN_def)
  then show ?case
    by (simp add: a x m is_least_def)
       (auto simp: num_le_def min_def split: jsnum.splits if_splits)
qed

lemma fold_js_max2_greatest:
  "\<not> isNaN a \<Longrightarrow> \<forall>x\<in>set xs. \<not> isNaN x \<Longrightarrow>
     is_greatest (fold (\<lambda>y acc. js_max2 acc y) xs a) (a # xs)"
proof (induction xs arbitrary: a)
  case Nil
  then show ?case by (cases a) (simp_all add: is_greatest_def num_le_def isNaN_def)
next
  case (Cons x xs)
  from Cons.prems obtain p q where a: "a = Fin p" and x: "x = Fin q"
    by (cases a; cases x) (simp_all add: isNaN_def)
  have m: "js_max2 (Fin p) (Fin q) = Fin (max p q)" by (simp add: js_max2_def)
  have "is_greatest (fold (\<lambda>y acc. js_max2 acc y) xs (Fin (max p q))) (Fin (max p q) # xs)"
    using Cons.prems by (intro Cons.IH) (simp_all add: isNaN_def)
  then show ?case
    by (simp add: a x m is_greatest_def)
       (auto simp: num_le_def max_def split: jsnum.splits if_splits)
qed

lemma Math_min_least:
  "xs \<noteq> [] \<Longrightarrow> \<forall>x\<in>set xs. \<not> isNaN x \<Longrightarrow> is_least (Math_min xs) xs"
  by (cases xs) (simp_all add: fold_js_min2_least)

lemma Math_max_greatest:
  "xs \<noteq> [] \<Longrightarrow> \<forall>x\<in>set xs. \<not> isNaN x \<Longrightarrow> is_greatest (Math_max xs) xs"
  by (cases xs) (simp_all add: fold_js_max2_greatest)

lemma num_or_not_NaN: "\<not> isNaN (num_or x d)"
  by (simp add: num_or_def isNaN_def split: option.splits)

text \<open>Every resolved scenario has numbers in the four places the comparison reads.\<close>

lemma fetchScenarioData_comparable:
  "fetchScenarioData name remote = Some m \<Longrightarrow> comparable m"
  by (auto simp: fetchScenarioData_def to_metrics_def Let_def comparable_def num_or_not_NaN
      split: prod.splits option.splits if_splits)

lemma validResults_comparable: "\<forall>m\<in>set (validResults scenarios). comparable m"
  by (induction scenarios)
     (auto simp: validResults_Cons fetchScenarioData_comparable split: option.splits)

lemma js_strict_eq_iff: "\<not> isNaN a \<Longrightarrow> js_strict_eq a b \<longleftrightarrow> a = b"
  by (cases a; cases b) (simp_all add: js_strict_eq_def isNaN_def)

text \<open>
  Claim C6, as stated: with two entries or more the comparison extrema are produced. It
  fails in single mode: \<^verbatim>\<open>bestMetrics\<close> yields nothing for the three resolved scenarios
  of the example.
\<close>

theorem comparison_extrema_counterexample:
  "2 \<le> length compare_example \<and> bestMetrics SINGLE compare_example = None"
  by (simp add: bestMetrics_def compare_example_def validResults_Cons fetchScenarioData_def
      fetch_item_def to_metrics_def payload_with_distance_def Let_def)

text \<open>
  Claim C6, amended: for every batch of results, with fewer than two entries no
  comparison extrema are produced, and in single mode none are produced either; in
  compare mode with two entries or more the extrema are the least average distance, the
  least total drops, the least trip count and the greatest average stops per trip of the
  batch, all unrounded, and a scenario carries a badge exactly when its unrounded value
  equals the extremum. With the average distances 5.0, 3.2 and 3.2 the least is 3.2 and
  both scenarios at 3.2 carry the badge.
\<close>

theorem comparison_extrema:
  assumes "\<forall>d\<in>set ms. comparable d"
  shows "(length ms < 2 \<longrightarrow> bestMetrics mode ms = None)
       \<and> (2 \<le> length ms \<longrightarrow> bestMetrics SINGLE ms = None)
       \<and> (2 \<le> length ms \<longrightarrow>
            (\<exists>b. bestMetrics COMPARE ms = Some b
               \<and> is_least (minDistance b) (map avgDistance ms)
               \<and> is_least (minDrops b) (map totalDrops ms)
               \<and> is_least (minTrips b) (map totalTrips ms)
               \<and> is_greatest (maxConsignments b) (map avgConsignments ms)
               \<and> (\<forall>s\<in>set ms.
                     (distanceBadge (Some b) s \<longleftrightarrow> avgDistance s = minDistance b)
                   \<and> (dropsBadge (Some b) s \<longleftrightarrow> totalDrops s = minDrops b)
                   \<and> (tripsBadge (Some b) s \<longleftrightarrow> totalTrips s = minTrips b)
                   \<and> (consignmentsBadge (Some b) s \<longleftrightarrow> avgConsignments s = maxConsignments b))))"
proof (intro conjI impI)
  show "bestMetrics mode ms = None" if "length ms < 2"
    using that by (simp add: bestMetrics_def)
  show "bestMetrics SINGLE ms = None" if "2 \<le> length ms"
    by (simp add: bestMetrics_def)
  show "\<exists>b. bestMetrics COMPARE ms = Some b
               \<and> is_least (minDistance b) (map avgDistance ms)
               \<and> is_least (minDrops b) (map totalDrops ms)
               \<and> is_least (minTrips b) (map totalTrips ms)
               \<and> is_greatest (maxConsignments b) (map avgConsignments ms)
               \<and> (\<forall>s\<in>set ms.
                     (distanceBadge (Some b) s \<longleftrightarrow> avgDistance s = minDistance b)
                   \<and> (dropsBadge (Some b) s \<longleftrightarrow> totalDrops s = minDrops b)
                   \<and> (tripsBadge (Some b) s \<longleftrightarrow> totalTrips s = minTrips b)
                   \<and> (consignmentsBadge (Some b) s \<longleftrightarrow> avgConsignments s = maxConsignments b))"
    if len: "2 \<le> length ms"
  proof -
    from len have ne: "ms \<noteq> []" by auto
    have b: "bestMetrics COMPARE ms = Some
        \<lparr> minDistance = Math_min (map avgDistance ms),
          minDrops = Math_min (map totalDrops ms),
          minTrips = Math_min (map totalTrips ms),
          maxConsignments = Math_max (map avgConsignments ms) \<rparr>"
      using len by (simp add: bestMetrics_def)
    have 1: "is_least (Math_min (map avgDistance ms)) (map avgDistance ms)"
      using assms ne by (intro Math_min_least) (simp_all add: comparable_def)
    have 2: "is_least (Math_min (map totalDrops ms)) (map totalDrops ms)"
      using assms ne by (intro Math_min_least) (simp_all add: comparable_def)
    have 3: "is_least (Math_min (map totalTrips ms)) (map totalTrips ms)"
      using assms ne by (intro Math_min_least) (simp_all add: comparable_def)
    have 4: "is_greatest (Math_max (map avgConsignments ms)) (map avgConsignments ms)"
      using assms ne by (intro Math_max_greatest) (simp_all add: comparable_def)
    have 5: "distanceBadge (Some b') s \<longleftrightarrow> avgDistance s = minDistance b'"
      "dropsBadge (Some b') s \<longleftrightarrow> totalDrops s = minDrops b'"
      "tripsBadge (Some b') s \<longleftrightarrow> totalTrips s = minTrips b'"
      "consignmentsBadge (Some b') s \<longleftrightarrow> avgConsignments s = maxConsignments b'"
      if "s \<in> set ms" for s b'
      using assms that
      by (simp_all add: distanceBadge_def dropsBadge_def tripsBadge_def consignmentsBadge_def
          badge_def js_strict_eq_iff comparable_def)
    show ?thesis
      unfolding b using 1 2 3 4 5 by simp
  qed
qed

theorem comparison_extrema_witness:
  "list_all comparable compare_example
   \<and> map avgDistance compare_example = [Fin 5, Fin (16 / 5), Fin (16 / 5)]
   \<and> map_option minDistance (bestMetrics COMPARE compare_example) = Some (Fin (16 / 5))
   \<and> map (distanceBadge (bestMetrics COMPARE compare_example)) compare_example = [False, True, True]"
proof -
  have c: "\<forall>d\<in>set compare_example. comparable d"
    by code_simp
  have e: "map avgDistance compare_example = [Fin 5, Fin (16 / 5), Fin (16 / 5)]"
    by code_simp
  have len: "2 \<le> length compare_example"
    using arg_cong [OF e, of length] by simp
  from comparison_extrema [OF c, of COMPARE, THEN conjunct2, THEN conjunct2, THEN mp, OF len]
  obtain b where b: "bestMetrics COMPARE compare_example = Some b"
    and least: "is_least (minDistance b) (map avgDistance compare_example)"
    and badge: "\<forall>s\<in>set compare_example. distanceBadge (Some b) s \<longleftrightarrow> avgDistance s = minDistance b"
    by blast
  from least have m: "minDistance b = Fin (16 / 5)"
    unfolding e by (auto simp: is_least_def num_le_def)
  have "map (distanceBadge (Some b)) compare_example = map (\<lambda>s. avgDistance s = Fin (16 / 5)) compare_example"
    using badge m by simp
  also have "\<dots> = map (\<lambda>v. v = Fin (16 / 5)) (map avgDistance compare_example)"
    by (simp add: comp_def)
  also have "\<dots> = [False, True, True]"
    unfolding e by simp
  finally show ?thesis
    using c e b m by (simp add: list_all_iff)
qed

section \<open>Properties of the output dashboard\<close>

subsection \<open>Reading the sheet\<close>







subsection \<open>Metrics per scenario\<close>








lemma map_filter_append: "List.map_filter f (xs @ ys) = List.map_filter f xs @ List.map_filter f ys"
  by (simp add: List.map_filter_def)
























end
